theory Spec2Isabelle
  imports Main "HOL-Library.Monad_Syntax" "HOL-Library.Sublist"
begin

section \<open>Pushing predicates down to Elasticsearch: \<open>be/src/exec/es_predicate.cpp\<close>\<close>

text \<open>
  \<open>EsPredicate::build_disjuncts_list\<close> walks one conjunct of a filter and appends, to a
  vector passed by reference, the predicates an external search backend can evaluate.
  It returns \<open>true\<close> when the whole conjunct could be translated.

  The embedding follows the source function branch by branch. The vector is passed in
  and returned (state passing), the boolean result is returned beside it, and an access
  the source makes without a bounds check (\<open>get_child(i)\<close> beyond the children,
  \<open>slot_ids[0]\<close> of an empty vector) is the value \<open>None\<close>: the C++ has no defined
  behaviour there.
\<close>

subsection \<open>Types the source takes from its headers\<close>

text \<open>
  The enumerations come from the generated Thrift headers (\<open>gen_cpp\<close>) and from
  \<open>runtime/primitive_type.h\<close>. The function only compares their values for equality, so
  the tags it names are listed together with some of their neighbours.
\<close>

datatype TExprNodeType =
    AGG_EXPR | ARITHMETIC_EXPR | BINARY_PRED | BOOL_LITERAL | CASE_EXPR | CAST_EXPR
  | COMPOUND_PRED | DATE_LITERAL | FLOAT_LITERAL | INT_LITERAL | IN_PRED | IS_NULL_PRED
  | LIKE_PRED | NULL_LITERAL | SLOT_REF | STRING_LITERAL | FUNCTION_CALL

datatype TExprOpcode =
    INVALID_OPCODE | COMPOUND_NOT | COMPOUND_AND | COMPOUND_OR | CAST
  | FILTER_IN | FILTER_NOT_IN | EQ | NE | LT | LE | GT | GE

datatype PrimitiveType =
    INVALID_TYPE | TYPE_NULL | TYPE_BOOLEAN | TYPE_TINYINT | TYPE_SMALLINT | TYPE_INT
  | TYPE_BIGINT | TYPE_LARGEINT | TYPE_FLOAT | TYPE_DOUBLE | TYPE_VARCHAR | TYPE_DATE
  | TYPE_DATETIME | TYPE_CHAR | TYPE_DECIMAL | TYPE_HLL

text \<open>
  \<open>TypeDescriptor\<close>: the type tag and, for the textual types, the declared length. The
  source reads the tag as \<open>type().type\<close>.
\<close>

record TypeDescriptor =
  type :: PrimitiveType
  len :: int

text \<open>
  Modelled from the spec: \<open>TypeDescriptor::is_string_type\<close> is declared in
  \<open>runtime/types.h\<close>, which is not part of the sources at hand. The spec calls it the
  string family, "textual column type variants treated as mutually compatible"; the
  family is taken to be the character types and the HLL sketch type stored as a string.
\<close>

definition is_string_type :: "TypeDescriptor \<Rightarrow> bool" where
  "is_string_type t =
     (type t = TYPE_VARCHAR \<or> type t = TYPE_CHAR \<or> type t = TYPE_HLL)"

text \<open>The evaluated value of a constant expression, used by the examples.\<close>

datatype Datum = NullVal | IntVal int | StringVal string

text \<open>
  \<open>Expr\<close>: a node of the expression tree. The function reads a node only through the
  accessors of the base class (\<open>node_type()\<close>, \<open>op()\<close>, \<open>type()\<close>,
  \<open>fn().name.function_name\<close>, \<open>children()\<close>) and through two members of subclasses it
  casts to (\<open>SlotRef\<close>'s slot id, \<open>InPredicate::is_not_in()\<close>), so a node is the tuple
  of these values. \<open>const_value\<close> is what a literal node holds.
\<close>

datatype Expr =
  Expr (node_type: TExprNodeType) (op: TExprOpcode) (expr_type: TypeDescriptor)
       (fn_name: string) (slot_id: nat) (is_not_in: bool) (const_value: Datum)
       (children: "Expr list")

text \<open>\<open>Expr::get_child(i)\<close> indexes the vector of children without a bounds check.\<close>

definition get_child :: "Expr \<Rightarrow> nat \<Rightarrow> Expr option" where
  "get_child e i = (if i < length (children e) then Some (children e ! i) else None)"

text \<open>
  Modelled from the spec: \<open>Expr::type_without_cast\<close> is declared in \<open>exprs/expr.h\<close>,
  which is not part of the sources at hand. The spec describes it as "stripping a leading
  type-cast wrapper": a node whose operator is a cast answers with the node type of what
  it wraps.
\<close>

fun type_without_cast :: "Expr \<Rightarrow> TExprNodeType" where
  "type_without_cast (Expr nt opc ty fnm sid nin cv cs) =
     (if opc = CAST
      then (case cs of [] \<Rightarrow> nt | c # _ \<Rightarrow> type_without_cast c)
      else nt)"

text \<open>
  Modelled from the spec: \<open>get_slot_ids\<close> is a virtual member declared in
  \<open>exprs/expr.h\<close> and \<open>exprs/slot_ref.h\<close>, which are not part of the sources at hand.
  "A slot-reference resolves to one or more underlying column identifiers": a slot
  reference gives its own identifier, any other node those of its children, left to right.
\<close>

fun get_slot_ids :: "Expr \<Rightarrow> nat list" where
  "get_slot_ids (Expr nt opc ty fnm sid nin cv cs) =
     (if nt = SLOT_REF then [sid] else concat (map get_slot_ids cs))"

record SlotDescriptor =
  id :: nat
  col_name :: string
  slot_type :: TypeDescriptor

text \<open>
  The members of \<open>EsPredicate\<close> the function reads: the evaluation service of the
  expression context, \<open>_context->get_value(expr, NULL)\<close>, which yields an opaque value
  of type \<open>'v\<close>, and the slots of the tuple descriptor, \<open>_tuple_desc->slots()\<close>.
\<close>

record 'v EsPredicate =
  context_get_value :: "Expr \<Rightarrow> 'v"
  tuple_desc_slots :: "SlotDescriptor list"

subsection \<open>The translator's output\<close>

record 'v ExtLiteral =
  lit_node_type :: TExprNodeType
  "value" :: 'v

record ExtColumnDesc =
  name :: string
  col_type :: TypeDescriptor

text \<open>
  Modelled from the spec: \<open>ExtPredicate\<close> and its subclasses are declared in
  \<open>exec/es_predicate.h\<close>, which is not part of the sources at hand. They are a class
  hierarchy with a shared base and three shapes: Comparison \<open>{column name, column type,
  comparison operator, one normalized literal}\<close>, Membership \<open>{column name, column type,
  ordered sequence of normalized literals, negation flag}\<close> and FunctionPredicate
  \<open>{function name, column-descriptor list, ordered sequence of normalized literals}\<close>.
  The base is taken to hold the node type, the one argument that every \<open>new\<close> expression
  of the source passes; the fields of a shape belong to its subclass. A subclass is a
  record that extends the record of the base.
\<close>

record ExtPredicate =
  pred_node_type :: TExprNodeType

record 'v ExtBinaryPredicate = ExtPredicate +
  binary_col :: ExtColumnDesc
  binary_op :: TExprOpcode
  binary_value :: "'v ExtLiteral"

record 'v ExtFunction = ExtPredicate +
  func_name :: string
  func_cols :: "ExtColumnDesc list"
  func_values :: "'v ExtLiteral list"

record 'v ExtInPredicate = ExtPredicate +
  in_is_not_in :: bool
  in_col :: ExtColumnDesc
  in_values :: "'v ExtLiteral list"

text \<open>
  \<open>disjuncts.emplace_back(std::move(*predicate))\<close>, where \<open>predicate\<close> is a
  \<open>std::unique_ptr<ExtPredicate>\<close> and \<open>disjuncts\<close> a \<open>vector<ExtPredicate>\<close>. The
  vector holds objects of the base class by value and \<open>*predicate\<close> is a reference to
  the base class, so the new element is made from the base part of the object alone:
  the fields of the subclass are not copied.
\<close>

definition emplace_back :: "ExtPredicate list \<Rightarrow> 'a ExtPredicate_scheme \<Rightarrow> ExtPredicate list" where
  "emplace_back disjuncts predicate =
     disjuncts @ [\<lparr>pred_node_type = pred_node_type predicate\<rparr>]"

subsection \<open>The helpers of the source\<close>

text \<open>\<open>EsPredicate::is_match_func\<close> (lines 195 to 201).\<close>

definition is_match_func :: "Expr \<Rightarrow> bool" where
  "is_match_func conjunct =
     (if node_type conjunct = FUNCTION_CALL \<and> fn_name conjunct = ''esquery''
      then True else False)"

text \<open>
  \<open>EsPredicate::get_slot_desc\<close> (lines 203 to 214): the first slot of the tuple whose id
  is \<open>slot_ids[0]\<close>, or \<open>nullptr\<close> (\<open>Some None\<close>). \<open>slot_ids[0]\<close> is read unchecked.
\<close>

definition get_slot_desc :: "'v EsPredicate \<Rightarrow> Expr \<Rightarrow> SlotDescriptor option option" where
  "get_slot_desc this slotRef =
     (case get_slot_ids slotRef of
        [] \<Rightarrow> None
      | sid # _ \<Rightarrow> Some (find (\<lambda>slot. id slot = sid) (tuple_desc_slots this)))"

text \<open>
  The two statements that turn an expression into a literal,
  \<open>new ExtLiteral(expr->node_type())\<close> and \<open>literal->value = _context->get_value(expr, NULL)\<close>.
\<close>

definition make_literal :: "'v EsPredicate \<Rightarrow> Expr \<Rightarrow> 'v ExtLiteral" where
  "make_literal this expr =
     \<lparr>lit_node_type = node_type expr, value = context_get_value this expr\<rparr>"

subsection \<open>\<open>build_disjuncts_list\<close>, branch by branch\<close>

text \<open>
  Each of the three leaf branches of the source first runs its checks, each of which may
  \<open>return false\<close>, then builds one predicate object, and ends with one \<open>emplace_back\<close>
  and \<open>return true\<close>. A branch is therefore a function that yields the object it builds
  (\<open>Some (Some predicate)\<close>) or the \<open>return false\<close> it takes (\<open>Some None\<close>), followed by
  the common ending \<open>emplace_and_return\<close>.
\<close>

text \<open>
  Lines 89 to 103: the tail of the binary branch, once \<open>slotRef\<close>, \<open>expr\<close> and \<open>op\<close>
  are chosen.
\<close>

definition binary_predicate ::
  "'v EsPredicate \<Rightarrow> Expr \<Rightarrow> Expr \<Rightarrow> TExprOpcode \<Rightarrow> 'v ExtBinaryPredicate option option" where
  "binary_predicate this slotRef expr opc =
     do {
       slot_desc \<leftarrow> get_slot_desc this slotRef;
       (case slot_desc of
          None \<Rightarrow> Some None
        | Some sd \<Rightarrow>
            Some (Some
              \<lparr>pred_node_type = BINARY_PRED,
               binary_col = \<lparr>name = col_name sd, col_type = slot_type sd\<rparr>,
               binary_op = opc,
               binary_value = make_literal this expr\<rparr>))
     }"

text \<open>Lines 67 to 103: the branch of a \<open>BINARY_PRED\<close> node, up to the predicate.\<close>

definition binary_pred_branch ::
  "'v EsPredicate \<Rightarrow> Expr \<Rightarrow> 'v ExtBinaryPredicate option option" where
  "binary_pred_branch this conjunct =
     (if length (children conjunct) \<noteq> 2 then Some None
      else do {
        child0 \<leftarrow> get_child conjunct 0;
        child1 \<leftarrow> get_child conjunct 1;
        if node_type child0 = SLOT_REF
          then binary_predicate this child0 child1 (op conjunct)
        else if node_type child1 = SLOT_REF
          then binary_predicate this child1 child0 (op conjunct)
        else Some None
      })"

text \<open>Lines 109 to 123: the branch of the \<open>esquery\<close> function, up to the predicate.\<close>

definition match_func_branch ::
  "'v EsPredicate \<Rightarrow> Expr \<Rightarrow> 'v ExtFunction option option" where
  "match_func_branch this conjunct =
     do {
       expr \<leftarrow> get_child conjunct 1;
       Some (Some
         \<lparr>pred_node_type = FUNCTION_CALL,
          func_name = fn_name conjunct,
          func_cols = [],
          func_values = [make_literal this expr]\<rparr>)
     }"

text \<open>
  Lines 144 to 161: the loop over the children from index 1. \<open>None\<close> is the
  \<open>return false\<close> of a type mismatch; otherwise the literals collected.
\<close>

fun in_pred_values ::
  "'v EsPredicate \<Rightarrow> Expr \<Rightarrow> Expr list \<Rightarrow> 'v ExtLiteral list \<Rightarrow> 'v ExtLiteral list option" where
  "in_pred_values this child0 [] acc = Some acc"
| "in_pred_values this child0 (child_i # rest) acc =
     (if is_string_type (expr_type child0)
      then (if \<not> is_string_type (expr_type child_i) then None
            else in_pred_values this child0 rest (acc @ [make_literal this child_i]))
      else (if type (expr_type child_i) \<noteq> type (expr_type child0) then None
            else in_pred_values this child0 rest (acc @ [make_literal this child_i])))"

text \<open>
  Lines 129 to 167: the branch of an \<open>IN_PRED\<close> node, up to the predicate. The source
  sets \<open>is_not_in\<close> on the local \<open>ext_in_predicate\<close>, which it does not use again, and
  constructs the Membership predicate from four arguments, none of which is the negation
  flag. The value the flag then has is fixed by the header; it is the parameter \<open>nin\<close>.
\<close>

definition in_pred_branch ::
  "bool \<Rightarrow> 'v EsPredicate \<Rightarrow> Expr \<Rightarrow> 'v ExtInPredicate option option" where
  "in_pred_branch nin this conjunct =
     do {
       child0 \<leftarrow> get_child conjunct 0;
       if type_without_cast child0 \<noteq> SLOT_REF then Some None
       else do {
         slot_desc \<leftarrow> get_slot_desc this child0;
         (case slot_desc of
            None \<Rightarrow> Some None
          | Some sd \<Rightarrow>
              (case in_pred_values this child0 (tl (children conjunct)) [] of
                 None \<Rightarrow> Some None
               | Some vals \<Rightarrow>
                   Some (Some
                     \<lparr>pred_node_type = IN_PRED,
                      in_is_not_in = nin,
                      in_col = \<lparr>name = col_name sd, col_type = slot_type sd\<rparr>,
                      in_values = vals\<rparr>)))
       }
     }"

text \<open>
  The ending of a leaf branch (lines 105 and 106, 124 to 126, 169 to 171): after a
  \<open>return false\<close> the vector is as it was; otherwise the predicate goes through
  \<open>emplace_back\<close> and the result is \<open>true\<close>.
\<close>

definition emplace_and_return ::
  "'a ExtPredicate_scheme option option \<Rightarrow> ExtPredicate list
     \<Rightarrow> (bool \<times> ExtPredicate list) option" where
  "emplace_and_return built disjuncts =
     do {
       outcome \<leftarrow> built;
       (case outcome of
          None \<Rightarrow> Some (False, disjuncts)
        | Some predicate \<Rightarrow> Some (True, emplace_back disjuncts predicate))
     }"

text \<open>Lines 66 to 193: the dispatch, and the branch of a \<open>COMPOUND_PRED\<close> node.\<close>

function build_disjuncts_list ::
  "bool \<Rightarrow> 'v EsPredicate \<Rightarrow> Expr \<Rightarrow> ExtPredicate list
     \<Rightarrow> (bool \<times> ExtPredicate list) option" where
  "build_disjuncts_list nin this conjunct disjuncts =
     (if node_type conjunct = BINARY_PRED
        then emplace_and_return (binary_pred_branch this conjunct) disjuncts
      else if is_match_func conjunct
        then emplace_and_return (match_func_branch this conjunct) disjuncts
      else if node_type conjunct = IN_PRED
        then emplace_and_return (in_pred_branch nin this conjunct) disjuncts
      else if node_type conjunct = COMPOUND_PRED then
        (if op conjunct \<noteq> COMPOUND_OR then Some (False, disjuncts)
         else do {
           child0 \<leftarrow> get_child conjunct 0;
           left \<leftarrow> build_disjuncts_list nin this child0 disjuncts;
           if \<not> fst left then Some (False, snd left)
           else do {
             child1 \<leftarrow> get_child conjunct 1;
             right \<leftarrow> build_disjuncts_list nin this child1 (snd left);
             if \<not> fst right then Some (False, snd right)
             else Some (True, snd right)
           }
         })
      else Some (False, disjuncts))"
  by pat_completeness auto
termination
proof -
  have smaller: "size c < size e" if "get_child e i = Some c" for e c and i
  proof -
    from that have "c \<in> set (children e)"
      by (auto simp: get_child_def split: if_splits)
    then have "size c \<le> size_list size (children e)"
      by (simp add: size_list_estimation')
    then show ?thesis by (cases e) simp
  qed
  show ?thesis
    by (relation "measure (\<lambda>(nin, this, conjunct, disjuncts). size conjunct)")
       (auto dest: smaller)
qed

declare build_disjuncts_list.simps [simp del]

subsection \<open>Depth-first order of the translated nodes\<close>

text \<open>
  The nodes of a tree that a translation turns into predicates, in left-to-right
  depth-first order: a \<open>COMPOUND_PRED\<close> node with operator \<open>COMPOUND_OR\<close> stands for those
  of its first two children (the only ones the source visits), any other node for itself.
  This function is not part of the source; it states the order the output is compared with.
\<close>

function disjunct_leaves :: "Expr \<Rightarrow> Expr list" where
  "disjunct_leaves (Expr nt opc ty fnm sid nin cv cs) =
     (if nt = COMPOUND_PRED \<and> opc = COMPOUND_OR
      then concat (map disjunct_leaves (take 2 cs))
      else [Expr nt opc ty fnm sid nin cv cs])"
  by pat_completeness auto
termination
proof (relation "measure size")
  fix nt opc ty fnm sid nin cv cs and x :: Expr
  assume "x \<in> set (take 2 cs)"
  then have "x \<in> set cs" by (rule in_set_takeD)
  then have "size x \<le> size_list size cs" by (simp add: size_list_estimation')
  then show "(x, Expr nt opc ty fnm sid nin cv cs) \<in> measure size" by simp
qed simp

subsection \<open>Concrete trees\<close>

text \<open>
  A tuple with an integer column \<open>a\<close> (slot 0) and a \<open>VARCHAR(20)\<close> column \<open>s\<close>
  (slot 1), an evaluation service that returns what a literal node holds, and the
  expressions of the examples.
\<close>

definition int_type :: TypeDescriptor where
  "int_type = \<lparr>type = TYPE_INT, len = 0\<rparr>"

definition bigint_type :: TypeDescriptor where
  "bigint_type = \<lparr>type = TYPE_BIGINT, len = 0\<rparr>"

definition bool_type :: TypeDescriptor where
  "bool_type = \<lparr>type = TYPE_BOOLEAN, len = 0\<rparr>"

definition varchar_type :: "int \<Rightarrow> TypeDescriptor" where
  "varchar_type n = \<lparr>type = TYPE_VARCHAR, len = n\<rparr>"

definition char_type :: "int \<Rightarrow> TypeDescriptor" where
  "char_type n = \<lparr>type = TYPE_CHAR, len = n\<rparr>"

definition mk_slot_ref :: "nat \<Rightarrow> TypeDescriptor \<Rightarrow> Expr" where
  "mk_slot_ref sid ty = Expr SLOT_REF INVALID_OPCODE ty [] sid False NullVal []"

definition mk_int_literal :: "TypeDescriptor \<Rightarrow> int \<Rightarrow> Expr" where
  "mk_int_literal ty n = Expr INT_LITERAL INVALID_OPCODE ty [] 0 False (IntVal n) []"

definition mk_string_literal :: "TypeDescriptor \<Rightarrow> string \<Rightarrow> Expr" where
  "mk_string_literal ty s = Expr STRING_LITERAL INVALID_OPCODE ty [] 0 False (StringVal s) []"

definition mk_cast :: "TypeDescriptor \<Rightarrow> Expr \<Rightarrow> Expr" where
  "mk_cast ty e = Expr CAST_EXPR CAST ty [] 0 False NullVal [e]"

definition mk_binary_pred :: "TExprOpcode \<Rightarrow> Expr \<Rightarrow> Expr \<Rightarrow> Expr" where
  "mk_binary_pred opc l r = Expr BINARY_PRED opc bool_type [] 0 False NullVal [l, r]"

definition mk_compound_pred :: "TExprOpcode \<Rightarrow> Expr \<Rightarrow> Expr \<Rightarrow> Expr" where
  "mk_compound_pred opc l r = Expr COMPOUND_PRED opc bool_type [] 0 False NullVal [l, r]"

definition mk_in_pred :: "bool \<Rightarrow> Expr list \<Rightarrow> Expr" where
  "mk_in_pred neg cs =
     Expr IN_PRED (if neg then FILTER_NOT_IN else FILTER_IN) bool_type [] 0 neg NullVal cs"

definition mk_function_call :: "string \<Rightarrow> Expr list \<Rightarrow> Expr" where
  "mk_function_call f cs = Expr FUNCTION_CALL INVALID_OPCODE bool_type f 0 False NullVal cs"

definition slot_a :: SlotDescriptor where
  "slot_a = \<lparr>id = 0, col_name = ''a'', slot_type = int_type\<rparr>"

definition slot_s :: SlotDescriptor where
  "slot_s = \<lparr>id = 1, col_name = ''s'', slot_type = varchar_type 20\<rparr>"

definition ex_this :: "Datum EsPredicate" where
  "ex_this = \<lparr>context_get_value = const_value, tuple_desc_slots = [slot_a, slot_s]\<rparr>"

definition ref_a :: Expr where
  "ref_a = mk_slot_ref 0 int_type"

definition ref_s :: Expr where
  "ref_s = mk_slot_ref 1 (varchar_type 20)"

definition int_lit :: "int \<Rightarrow> Datum ExtLiteral" where
  "int_lit n = \<lparr>lit_node_type = INT_LITERAL, value = IntVal n\<rparr>"

definition string_lit :: "string \<Rightarrow> Datum ExtLiteral" where
  "string_lit s = \<lparr>lit_node_type = STRING_LITERAL, value = StringVal s\<rparr>"

text \<open>
  The Comparison predicate \<open>a opc n\<close> on the integer column as the binary branch builds
  it, and the element of the vector that a predicate of node type \<open>nt\<close> leaves.
\<close>

definition col_a :: ExtColumnDesc where
  "col_a = \<lparr>name = ''a'', col_type = int_type\<rparr>"

definition col_s :: ExtColumnDesc where
  "col_s = \<lparr>name = ''s'', col_type = varchar_type 20\<rparr>"

definition cmp_a :: "TExprOpcode \<Rightarrow> int \<Rightarrow> Datum ExtBinaryPredicate" where
  "cmp_a opc n =
     \<lparr>pred_node_type = BINARY_PRED, binary_col = col_a, binary_op = opc,
      binary_value = int_lit n\<rparr>"

definition base_copy :: "TExprNodeType \<Rightarrow> ExtPredicate" where
  "base_copy nt = \<lparr>pred_node_type = nt\<rparr>"

text \<open>\<open>a > 5\<close>, \<open>5 > a\<close>, \<open>a < 1\<close>, \<open>a > s\<close> (two columns) and \<open>s = 5\<close>.\<close>

definition ex_gt :: Expr where
  "ex_gt = mk_binary_pred GT ref_a (mk_int_literal int_type 5)"

definition ex_gt_swapped :: Expr where
  "ex_gt_swapped = mk_binary_pred GT (mk_int_literal int_type 5) ref_a"

definition ex_lt :: Expr where
  "ex_lt = mk_binary_pred LT ref_a (mk_int_literal int_type 1)"

definition ex_both_slots :: Expr where
  "ex_both_slots = mk_binary_pred GT ref_a ref_s"

definition ex_mismatch :: Expr where
  "ex_mismatch = mk_binary_pred EQ ref_s (mk_int_literal int_type 5)"

text \<open>
  \<open>a > 5 OR a < 1\<close>, \<open>a < 1 OR a > 5\<close>, \<open>a > 5 AND a < 1\<close>, and \<open>a > 5 OR 7\<close> (a bare
  literal).
\<close>

definition ex_or :: Expr where
  "ex_or = mk_compound_pred COMPOUND_OR ex_gt ex_lt"

definition ex_or_swapped :: Expr where
  "ex_or_swapped = mk_compound_pred COMPOUND_OR ex_lt ex_gt"

definition ex_and :: Expr where
  "ex_and = mk_compound_pred COMPOUND_AND ex_gt ex_lt"

definition ex_or_unsupported :: Expr where
  "ex_or_unsupported = mk_compound_pred COMPOUND_OR ex_gt (mk_int_literal int_type 7)"

text \<open>
  \<open>a IN (1, 2, 3)\<close>, \<open>a NOT IN (1, 2, 3)\<close>, \<open>a IN ('x', 1)\<close>, \<open>s IN ('x', 'y')\<close> with
  \<open>CHAR\<close> values, and \<open>CAST(a AS BIGINT) IN (1, 2)\<close> with \<open>BIGINT\<close> values.
\<close>

definition ex_in_values :: "Expr list" where
  "ex_in_values =
     [mk_int_literal int_type 1, mk_int_literal int_type 2, mk_int_literal int_type 3]"

definition ex_in :: Expr where
  "ex_in = mk_in_pred False (ref_a # ex_in_values)"

definition ex_not_in :: Expr where
  "ex_not_in = mk_in_pred True (ref_a # ex_in_values)"

definition ex_in_mixed :: Expr where
  "ex_in_mixed =
     mk_in_pred False [ref_a, mk_string_literal (varchar_type 1) ''x'', mk_int_literal int_type 1]"

definition ex_in_strings :: Expr where
  "ex_in_strings =
     mk_in_pred False
       [ref_s, mk_string_literal (char_type 1) ''x'', mk_string_literal (char_type 1) ''y'']"

definition ex_in_cast :: Expr where
  "ex_in_cast =
     mk_in_pred False
       [mk_cast bigint_type ref_a, mk_int_literal bigint_type 1, mk_int_literal bigint_type 2]"

text \<open>
  \<open>esquery(s, 'match_all')\<close>, \<open>esquery(a, 'other')\<close>, \<open>concat(s, s)\<close> and
  \<open>esquery(s)\<close>.
\<close>

definition ex_esquery :: Expr where
  "ex_esquery =
     mk_function_call ''esquery'' [ref_s, mk_string_literal (varchar_type 9) ''match_all'']"

definition ex_esquery_other :: Expr where
  "ex_esquery_other =
     mk_function_call ''esquery'' [ref_a, mk_string_literal (varchar_type 5) ''other'']"

definition ex_concat :: Expr where
  "ex_concat = mk_function_call ''concat'' [ref_s, ref_s]"

definition ex_esquery_short :: Expr where
  "ex_esquery_short = mk_function_call ''esquery'' [ref_s]"

lemmas ex_defs = int_type_def bigint_type_def bool_type_def varchar_type_def char_type_def
  mk_slot_ref_def mk_int_literal_def mk_string_literal_def mk_cast_def mk_binary_pred_def
  mk_compound_pred_def mk_in_pred_def mk_function_call_def slot_a_def slot_s_def ex_this_def
  ref_a_def ref_s_def int_lit_def string_lit_def col_a_def col_s_def cmp_a_def base_copy_def
  ex_gt_def ex_gt_swapped_def ex_lt_def ex_both_slots_def ex_mismatch_def ex_or_def
  ex_or_swapped_def ex_and_def ex_or_unsupported_def ex_in_values_def ex_in_def
  ex_not_in_def ex_in_mixed_def ex_in_strings_def ex_in_cast_def ex_esquery_def
  ex_esquery_other_def ex_concat_def ex_esquery_short_def

lemmas branch_defs = binary_pred_branch_def binary_predicate_def match_func_branch_def
  in_pred_branch_def emplace_and_return_def emplace_back_def get_child_def
  get_slot_desc_def is_match_func_def make_literal_def is_string_type_def

lemmas eval_defs = build_disjuncts_list.simps branch_defs ex_defs

section \<open>Properties\<close>

subsection \<open>Auxiliary facts\<close>

lemma size_get_child: "get_child e i = Some c \<Longrightarrow> size c < size e"
proof -
  assume "get_child e i = Some c"
  then have "c \<in> set (children e)"
    by (auto simp: get_child_def split: if_splits)
  then have "size c \<le> size_list size (children e)"
    by (simp add: size_list_estimation')
  then show ?thesis by (cases e) simp
qed

lemma slot_ref_ids: "node_type s = SLOT_REF \<Longrightarrow> get_slot_ids s = [slot_id s]"
  by (cases s) simp

lemma get_slot_desc_slot_ref:
  "node_type s = SLOT_REF \<Longrightarrow>
     get_slot_desc this s = Some (find (\<lambda>slot. id slot = slot_id s) (tuple_desc_slots this))"
  by (simp add: get_slot_desc_def slot_ref_ids)

text \<open>The dispatch, unfolded once for a node that is not compound and for one that is.\<close>

lemma build_non_compound:
  "node_type e \<noteq> COMPOUND_PRED \<Longrightarrow>
   build_disjuncts_list nin this e ds =
     (if node_type e = BINARY_PRED then emplace_and_return (binary_pred_branch this e) ds
      else if is_match_func e then emplace_and_return (match_func_branch this e) ds
      else if node_type e = IN_PRED then emplace_and_return (in_pred_branch nin this e) ds
      else Some (False, ds))"
  by (subst build_disjuncts_list.simps) simp

lemma build_compound:
  "node_type e = COMPOUND_PRED \<Longrightarrow>
   build_disjuncts_list nin this e ds =
     (if op e \<noteq> COMPOUND_OR then Some (False, ds)
      else do {
        child0 \<leftarrow> get_child e 0;
        left \<leftarrow> build_disjuncts_list nin this child0 ds;
        if \<not> fst left then Some (False, snd left)
        else do {
          child1 \<leftarrow> get_child e 1;
          right \<leftarrow> build_disjuncts_list nin this child1 (snd left);
          if \<not> fst right then Some (False, snd right) else Some (True, snd right)
        }
      })"
  by (subst build_disjuncts_list.simps) (simp add: is_match_func_def)

text \<open>The ending of a leaf branch, by the outcome of the branch.\<close>

lemma emplace_and_return_simps:
  "emplace_and_return None ds = None"
  "emplace_and_return (Some None) ds = Some (False, ds)"
  "emplace_and_return (Some (Some p)) ds =
     Some (True, ds @ [\<lparr>pred_node_type = pred_node_type p\<rparr>])"
  by (simp_all add: emplace_and_return_def emplace_back_def)

text \<open>
  What a call appends does not depend on what the vector held before: the result on
  \<open>ds\<close> is the result on the empty vector with \<open>ds\<close> in front.
\<close>

lemma emplace_and_return_acc:
  "emplace_and_return built ds = map_option (apsnd ((@) ds)) (emplace_and_return built [])"
  by (simp add: emplace_and_return_def emplace_back_def
      split: Option.bind_splits option.splits)

lemma build_acc:
  "build_disjuncts_list nin this e ds =
     map_option (apsnd ((@) ds)) (build_disjuncts_list nin this e [])"
proof (induction "size e" arbitrary: e ds rule: less_induct)
  case less
  show ?case
  proof (cases "node_type e = COMPOUND_PRED \<and> op e = COMPOUND_OR")
    case False
    then show ?thesis
      using emplace_and_return_acc [of "binary_pred_branch this e" ds]
        emplace_and_return_acc [of "match_func_branch this e" ds]
        emplace_and_return_acc [of "in_pred_branch nin this e" ds]
      by (subst (1 2) build_disjuncts_list.simps) (auto simp: is_match_func_def)
  next
    case True
    then have nt: "node_type e \<noteq> BINARY_PRED" "\<not> is_match_func e" "node_type e \<noteq> IN_PRED"
      by (auto simp: is_match_func_def)
    show ?thesis
    proof (cases "get_child e 0")
      case None
      then show ?thesis using True nt
        by (subst (1 2) build_disjuncts_list.simps) simp
    next
      case (Some l)
      note l = this
      have ihl: "build_disjuncts_list nin this l acc =
          map_option (apsnd ((@) acc)) (build_disjuncts_list nin this l [])" for acc
        using less [of l acc] size_get_child [OF l] by simp
      show ?thesis
      proof (cases "get_child e 1")
        case None
        then show ?thesis using True nt l ihl [of ds]
          by (subst (1 2) build_disjuncts_list.simps)
             (auto split: Option.bind_splits)
      next
        case (Some r)
        have ihr: "build_disjuncts_list nin this r acc =
            map_option (apsnd ((@) acc)) (build_disjuncts_list nin this r [])" for acc
          using less [of r acc] size_get_child [OF Some] by simp
        show ?thesis
          using True nt l Some ihl [of ds]
          apply (subst (1 2) build_disjuncts_list.simps)
          apply (cases "build_disjuncts_list nin this l []")
           apply simp
          apply (simp add: ihr [of "ds @ _"] ihr [of "snd _"])
          apply (cases "build_disjuncts_list nin this r []")
           apply (auto simp: ihr [of "ds @ _"] split: Option.bind_splits)
          done
      qed
    qed
  qed
qed

lemma build_prefix:
  "build_disjuncts_list nin this e ds = Some (b, out) \<Longrightarrow> prefix ds out"
  by (subst (asm) build_acc) auto

text \<open>The binary branch on a node with two children, and its tail on a slot reference.\<close>

lemma binary_pred_two_children:
  assumes "children e = [c0, c1]"
  shows "binary_pred_branch this e =
     (if node_type c0 = SLOT_REF then binary_predicate this c0 c1 (op e)
      else if node_type c1 = SLOT_REF then binary_predicate this c1 c0 (op e)
      else Some None)"
  using assms by (simp add: binary_pred_branch_def get_child_def)

lemma binary_predicate_slot_ref:
  "node_type s = SLOT_REF \<Longrightarrow>
   binary_predicate this s x opc =
     Some (case find (\<lambda>slot. id slot = slot_id s) (tuple_desc_slots this) of
        None \<Rightarrow> None
      | Some sd \<Rightarrow> Some
          \<lparr>pred_node_type = BINARY_PRED,
           binary_col = \<lparr>name = col_name sd, col_type = slot_type sd\<rparr>,
           binary_op = opc,
           binary_value = make_literal this x\<rparr>)"
  by (simp add: binary_predicate_def get_slot_desc_slot_ref split: option.splits)

text \<open>A leaf that returns \<open>false\<close> has appended nothing; one that returns \<open>true\<close>, one
  element.\<close>

lemma emplace_and_return_fail:
  "emplace_and_return built ds = Some (False, out) \<Longrightarrow> out = ds"
  by (auto simp: emplace_and_return_def split: Option.bind_splits option.splits)

lemma emplace_and_return_one:
  "emplace_and_return built [] = Some (True, ps) \<Longrightarrow> \<exists>p. ps = [p]"
  by (auto simp: emplace_and_return_def emplace_back_def
      split: Option.bind_splits option.splits)

lemma non_compound_success_one:
  assumes "node_type e \<noteq> COMPOUND_PRED"
    and "build_disjuncts_list nin this e [] = Some (True, ps)"
  shows "\<exists>p. ps = [p]"
  using assms
  by (auto simp: build_non_compound split: if_splits dest: emplace_and_return_one)

text \<open>The loop of the membership branch as one test over the value children.\<close>

lemma in_pred_values_all:
  "in_pred_values this c0 vs acc =
     (if list_all (\<lambda>v. if is_string_type (expr_type c0) then is_string_type (expr_type v)
                        else type (expr_type v) = type (expr_type c0)) vs
      then Some (acc @ map (make_literal this) vs) else None)"
  by (induction vs arbitrary: acc) auto

text \<open>The leaves of a node, by cases.\<close>

lemma disjunct_leaves_other:
  "\<not> (node_type e = COMPOUND_PRED \<and> op e = COMPOUND_OR) \<Longrightarrow> disjunct_leaves e = [e]"
  by (cases e) auto

lemma take_two_children:
  "get_child e 0 = Some l \<Longrightarrow> get_child e 1 = Some r \<Longrightarrow> take 2 (children e) = [l, r]"
  by (cases "children e"; cases "tl (children e)")
     (auto simp: get_child_def split: if_splits)

lemma disjunct_leaves_or:
  "node_type e = COMPOUND_PRED \<Longrightarrow> op e = COMPOUND_OR \<Longrightarrow>
   get_child e 0 = Some l \<Longrightarrow> get_child e 1 = Some r \<Longrightarrow>
   disjunct_leaves e = disjunct_leaves l @ disjunct_leaves r"
  using take_two_children [of e l r] by (cases e) simp

lemma build_leaves:
  "build_disjuncts_list nin this e [] = Some (True, ps) \<Longrightarrow>
   list_all2 (\<lambda>leaf p. build_disjuncts_list nin this leaf [] = Some (True, [p]))
     (disjunct_leaves e) ps"
proof (induction "size e" arbitrary: e ps rule: less_induct)
  case less
  show ?case
  proof (cases "node_type e = COMPOUND_PRED")
    case False
    with less.prems non_compound_success_one [OF False less.prems]
    show ?thesis by (auto simp: disjunct_leaves_other)
  next
    case True
    note cp = this
    show ?thesis
    proof (cases "op e = COMPOUND_OR")
      case False
      with cp less.prems show ?thesis by (simp add: build_compound)
    next
      case True
      from less.prems cp True obtain l r d1 where
        l: "get_child e 0 = Some l"
        and bl: "build_disjuncts_list nin this l [] = Some (True, d1)"
        and r: "get_child e 1 = Some r"
        and br: "build_disjuncts_list nin this r d1 = Some (True, ps)"
        by (auto simp: build_compound split: Option.bind_splits if_splits)
      from br obtain q where q: "build_disjuncts_list nin this r [] = Some (True, q)"
        and ps: "ps = d1 @ q"
        by (subst (asm) build_acc) auto
      have "list_all2 (\<lambda>leaf p. build_disjuncts_list nin this leaf [] = Some (True, [p]))
              (disjunct_leaves l) d1"
        using less.hyps [OF size_get_child [OF l] bl] .
      moreover
      have "list_all2 (\<lambda>leaf p. build_disjuncts_list nin this leaf [] = Some (True, [p]))
              (disjunct_leaves r) q"
        using less.hyps [OF size_get_child [OF r] q] .
      ultimately show ?thesis
        unfolding ps disjunct_leaves_or [OF cp True l r] by (rule list_all2_appendI)
    qed
  qed
qed

text \<open>
  On success, what a call appended is, element by element, what the nodes of the tree in
  left-to-right depth-first order leave in the vector on their own.
\<close>

lemma elements_follow_leaves:
  assumes "build_disjuncts_list nin this e ds = Some (True, out)"
  shows "\<exists>ps. out = ds @ ps \<and>
     list_all2 (\<lambda>leaf p. build_disjuncts_list nin this leaf [] = Some (True, [p]))
       (disjunct_leaves e) ps"
proof -
  from assms obtain ps where ps: "build_disjuncts_list nin this e [] = Some (True, ps)"
    and out: "out = ds @ ps"
    by (subst (asm) build_acc) auto
  from build_leaves [OF ps] out show ?thesis by blast
qed


lemma function_call_control_flow:
  "(is_match_func e \<longleftrightarrow> node_type e = FUNCTION_CALL \<and> fn_name e = ''esquery'') \<and>
   (is_match_func e \<and> get_child e 1 = Some x \<longrightarrow>
      match_func_branch this e = Some (Some
        \<lparr>pred_node_type = FUNCTION_CALL, func_name = fn_name e, func_cols = [],
         func_values = [\<lparr>lit_node_type = node_type x, value = context_get_value this x\<rparr>]\<rparr>) \<and>
      build_disjuncts_list nin this e ds =
        Some (True, ds @ [\<lparr>pred_node_type = FUNCTION_CALL\<rparr>])) \<and>
   (is_match_func e \<and> get_child e 1 = None \<longrightarrow> build_disjuncts_list nin this e ds = None) \<and>
   (node_type e = FUNCTION_CALL \<and> fn_name e \<noteq> ''esquery'' \<longrightarrow>
      build_disjuncts_list nin this e ds = Some (False, ds))"
  by (auto simp: build_non_compound is_match_func_def match_func_branch_def make_literal_def
      emplace_and_return_simps)

text \<open>\<open>concat(s, s)\<close> is rejected; \<open>esquery(s)\<close> reads a second child it does not have.\<close>

lemma function_call_examples:
  "build_disjuncts_list nin ex_this ex_concat [] = Some (False, []) \<and>
   build_disjuncts_list nin ex_this ex_esquery_short [] = None"
  using function_call_control_flow [of ex_concat ref_s ex_this nin "[]"]
    function_call_control_flow [of ex_esquery_short ref_s ex_this nin "[]"]
  by (simp add: ex_defs get_child_def is_match_func_def)

subsection \<open>The binary-comparison branch\<close>

text \<open>
  Claim C1, as the code has it. For a \<open>BINARY_PRED\<close> node with exactly two children the
  translation fails, appending nothing, when neither child is a slot reference. When at
  least one child is a slot reference it goes on to slot resolution and literal
  evaluation: the first child is the slot if it is a slot reference (the second child is
  then the operand, whether or not it is a slot reference too), otherwise the second
  child is the slot. The call then fails only if the slot does not resolve, and on
  success the vector has grown by one element.
\<close>

theorem binary_pred_slot_choice:
  assumes "node_type e = BINARY_PRED" and "children e = [c0, c1]"
  shows "binary_pred_branch this e =
     Some (if node_type c0 \<noteq> SLOT_REF \<and> node_type c1 \<noteq> SLOT_REF then None
      else case find (\<lambda>slot. id slot = slot_id (if node_type c0 = SLOT_REF then c0 else c1))
                  (tuple_desc_slots this) of
             None \<Rightarrow> None
           | Some sd \<Rightarrow> Some
               \<lparr>pred_node_type = BINARY_PRED,
                binary_col = \<lparr>name = col_name sd, col_type = slot_type sd\<rparr>,
                binary_op = op e,
                binary_value =
                  make_literal this (if node_type c0 = SLOT_REF then c1 else c0)\<rparr>) \<and>
   build_disjuncts_list nin this e ds =
     (if node_type c0 \<noteq> SLOT_REF \<and> node_type c1 \<noteq> SLOT_REF then Some (False, ds)
      else case find (\<lambda>slot. id slot = slot_id (if node_type c0 = SLOT_REF then c0 else c1))
                  (tuple_desc_slots this) of
             None \<Rightarrow> Some (False, ds)
           | Some sd \<Rightarrow> Some (True, ds @ [\<lparr>pred_node_type = BINARY_PRED\<rparr>]))"
  using assms
  by (auto simp: build_non_compound binary_pred_two_children binary_predicate_slot_ref
      emplace_and_return_simps split: option.splits)

text \<open>\<open>5 > a\<close>, translated into a vector that already holds one element.\<close>

theorem binary_pred_slot_choice_witness:
  "node_type ex_gt_swapped = BINARY_PRED \<and>
   children ex_gt_swapped = [mk_int_literal int_type 5, ref_a] \<and>
   binary_pred_branch ex_this ex_gt_swapped = Some (Some (cmp_a GT 5)) \<and>
   build_disjuncts_list False ex_this ex_gt_swapped [base_copy IN_PRED] =
     Some (True, [base_copy IN_PRED, base_copy BINARY_PRED])"
  using binary_pred_slot_choice
    [of ex_gt_swapped "mk_int_literal int_type 5" ref_a ex_this False "[base_copy IN_PRED]"]
  by (simp add: ex_defs make_literal_def)

text \<open>
  Claim C1 as the spec states it fails on \<open>a > s\<close>: both children are slot references,
  and the call returns \<open>true\<close> and the vector, empty before, holds one element.
\<close>

theorem both_slot_refs_accepted:
  "node_type ex_both_slots = BINARY_PRED \<and> children ex_both_slots = [ref_a, ref_s] \<and>
   node_type ref_a = SLOT_REF \<and> node_type ref_s = SLOT_REF \<and>
   build_disjuncts_list False ex_this ex_both_slots [] =
     Some (True, [base_copy BINARY_PRED])"
  by (simp add: eval_defs)

text \<open>
  Claim C4 does not hold of the code. For \<open>a > 5\<close> the binary branch builds the
  Comparison predicate the claim describes, with the column name and type of the slot,
  the operator of the node and the evaluated operand. The vector, however, receives the
  base-class part of that object only: its one new element holds the node type and
  nothing else, and it is the same element for \<open>a > 5\<close>, for \<open>5 > a\<close> and for \<open>s = 5\<close>,
  which differ in column, operator and side of the slot.
\<close>

theorem comparison_fields_not_appended:
  "binary_pred_branch ex_this ex_gt = Some (Some (cmp_a GT 5)) \<and>
   build_disjuncts_list nin ex_this ex_gt [] = Some (True, [base_copy BINARY_PRED]) \<and>
   build_disjuncts_list nin ex_this ex_gt_swapped [] = Some (True, [base_copy BINARY_PRED]) \<and>
   build_disjuncts_list nin ex_this ex_mismatch [] = Some (True, [base_copy BINARY_PRED])"
  by (simp add: eval_defs)



subsection \<open>The passthrough function\<close>

text \<open>
  Claim C9 does not hold of the code. \<open>is_match_func\<close> does hold exactly of the
  \<open>FUNCTION_CALL\<close> nodes named \<open>esquery\<close>, and for \<open>esquery(s, 'match_all')\<close> the branch
  builds the FunctionPredicate the claim describes: the function name, an empty column
  list and the one literal of the second child. The vector receives the base-class part
  of that object only: its new element carries neither name nor literal, and it is the
  same element for \<open>esquery(a, 'other')\<close>.
\<close>

theorem function_fields_not_appended:
  "is_match_func ex_esquery \<and>
   match_func_branch ex_this ex_esquery = Some (Some
     \<lparr>pred_node_type = FUNCTION_CALL, func_name = ''esquery'', func_cols = [],
      func_values = [string_lit ''match_all'']\<rparr>) \<and>
   build_disjuncts_list nin ex_this ex_esquery [] = Some (True, [base_copy FUNCTION_CALL]) \<and>
   build_disjuncts_list nin ex_this ex_esquery_other [] =
     Some (True, [base_copy FUNCTION_CALL])"
  by (simp add: eval_defs)

subsection \<open>Compound nodes\<close>

text \<open>
  Claim C7. A \<open>COMPOUND_PRED\<close> node whose operator is not \<open>COMPOUND_OR\<close> fails and leaves
  the vector as it was, whatever its children are (they are not read).
\<close>

theorem compound_not_or_fails:
  "node_type e = COMPOUND_PRED \<Longrightarrow> op e \<noteq> COMPOUND_OR \<Longrightarrow>
   build_disjuncts_list nin this e ds = Some (False, ds)"
  by (simp add: build_compound)

text \<open>\<open>a > 5 AND a < 1\<close> is rejected.\<close>

theorem compound_not_or_fails_witness:
  "node_type ex_and = COMPOUND_PRED \<and> op ex_and \<noteq> COMPOUND_OR \<and>
   build_disjuncts_list False ex_this ex_and [] = Some (False, [])"
  using compound_not_or_fails [of ex_and False ex_this "[]"]
  by (simp add: ex_defs)

text \<open>
  Claim C6. A \<open>COMPOUND_PRED\<close> node with operator \<open>COMPOUND_OR\<close> and two children
  succeeds if and only if the call on the left child succeeds and the call on the right
  child, made on the vector the left call returned, succeeds too. When the left call
  succeeds and the right one fails, the node fails and returns the vector of the right
  call, which still begins with everything the left call appended.
\<close>

theorem compound_or_both_branches:
  assumes "node_type e = COMPOUND_PRED" and "op e = COMPOUND_OR"
    and "get_child e 0 = Some l" and "get_child e 1 = Some r"
  shows "((\<exists>out. build_disjuncts_list nin this e ds = Some (True, out)) \<longleftrightarrow>
          (\<exists>d1 d2. build_disjuncts_list nin this l ds = Some (True, d1) \<and>
                   build_disjuncts_list nin this r d1 = Some (True, d2))) \<and>
         (\<forall>d1 d2. build_disjuncts_list nin this l ds = Some (True, d1) \<and>
                  build_disjuncts_list nin this r d1 = Some (False, d2) \<longrightarrow>
            build_disjuncts_list nin this e ds = Some (False, d2) \<and>
            prefix ds d1 \<and> prefix d1 d2)"
proof -
  have eq: "build_disjuncts_list nin this e ds =
      do {
        left \<leftarrow> build_disjuncts_list nin this l ds;
        if \<not> fst left then Some (False, snd left)
        else do {
          right \<leftarrow> build_disjuncts_list nin this r (snd left);
          if \<not> fst right then Some (False, snd right) else Some (True, snd right)
        }
      }"
    using assms by (simp add: build_compound cong: if_cong)
  have one: "(\<exists>out. build_disjuncts_list nin this e ds = Some (True, out)) \<longleftrightarrow>
          (\<exists>d1 d2. build_disjuncts_list nin this l ds = Some (True, d1) \<and>
                   build_disjuncts_list nin this r d1 = Some (True, d2))"
    unfolding eq by (auto split: Option.bind_splits if_splits)
  have two: "build_disjuncts_list nin this e ds = Some (False, d2) \<and>
      prefix ds d1 \<and> prefix d1 d2"
    if "build_disjuncts_list nin this l ds = Some (True, d1)"
      and "build_disjuncts_list nin this r d1 = Some (False, d2)" for d1 d2
    using that build_prefix [OF that(1)] build_prefix [OF that(2)] unfolding eq by simp
  from one two show ?thesis by blast
qed

text \<open>\<open>a > 5 OR 7\<close>: the call fails, and the vector holds the element of \<open>a > 5\<close>.\<close>

theorem compound_or_both_branches_witness:
  "node_type ex_or_unsupported = COMPOUND_PRED \<and> op ex_or_unsupported = COMPOUND_OR \<and>
   get_child ex_or_unsupported 0 = Some ex_gt \<and>
   get_child ex_or_unsupported 1 = Some (mk_int_literal int_type 7) \<and>
   build_disjuncts_list False ex_this ex_gt [] = Some (True, [base_copy BINARY_PRED]) \<and>
   build_disjuncts_list False ex_this (mk_int_literal int_type 7) [base_copy BINARY_PRED] =
     Some (False, [base_copy BINARY_PRED]) \<and>
   build_disjuncts_list False ex_this ex_or_unsupported [] =
     Some (False, [base_copy BINARY_PRED])"
proof -
  have h: "node_type ex_or_unsupported = COMPOUND_PRED" "op ex_or_unsupported = COMPOUND_OR"
    "get_child ex_or_unsupported 0 = Some ex_gt"
    "get_child ex_or_unsupported 1 = Some (mk_int_literal int_type 7)"
    by (simp_all add: ex_defs get_child_def)
  have l: "build_disjuncts_list False ex_this ex_gt [] = Some (True, [base_copy BINARY_PRED])"
    by (simp add: eval_defs)
  have r: "build_disjuncts_list False ex_this (mk_int_literal int_type 7)
      [base_copy BINARY_PRED] = Some (False, [base_copy BINARY_PRED])"
    by (simp add: eval_defs)
  from compound_or_both_branches [OF h, of False ex_this "[]"] l r
  have "build_disjuncts_list False ex_this ex_or_unsupported [] =
      Some (False, [base_copy BINARY_PRED])"
    by blast
  with h l r show ?thesis by simp
qed

text \<open>
  Claim C5 does not hold of the code. The elements a successful call appends do follow
  the nodes of the tree in left-to-right depth-first order (\<open>elements_follow_leaves\<close>),
  but they are not the predicates: for \<open>a > 5 OR a < 1\<close> the two branches build the
  Comparison predicates of \<open>a > 5\<close> and of \<open>a < 1\<close>, and the vector holds two base-class
  copies without column, operator or literal. It is the very vector that
  \<open>a < 1 OR a > 5\<close> gives.
\<close>

theorem disjunct_fields_not_appended:
  "disjunct_leaves ex_or = [ex_gt, ex_lt] \<and>
   binary_pred_branch ex_this ex_gt = Some (Some (cmp_a GT 5)) \<and>
   binary_pred_branch ex_this ex_lt = Some (Some (cmp_a LT 1)) \<and>
   build_disjuncts_list nin ex_this ex_or [] =
     Some (True, [base_copy BINARY_PRED, base_copy BINARY_PRED]) \<and>
   build_disjuncts_list nin ex_this ex_or_swapped [] =
     Some (True, [base_copy BINARY_PRED, base_copy BINARY_PRED])"
  by (simp add: eval_defs)

subsection \<open>Failure and the output vector\<close>

text \<open>
  Claim C10. A node that is not a \<open>COMPOUND_PRED\<close> and whose translation returns \<open>false\<close>
  leaves the vector exactly as it was passed in.
\<close>

theorem non_compound_failure_appends_nothing:
  "node_type e \<noteq> COMPOUND_PRED \<Longrightarrow> build_disjuncts_list nin this e ds = Some (False, out)
     \<Longrightarrow> out = ds"
  by (auto simp: build_non_compound split: if_splits dest: emplace_and_return_fail)

text \<open>\<open>a IN ('x', 1)\<close> fails at its first value and the vector keeps its one element.\<close>

theorem non_compound_failure_appends_nothing_witness:
  "node_type ex_in_mixed \<noteq> COMPOUND_PRED \<and>
   build_disjuncts_list False ex_this ex_in_mixed [base_copy BINARY_PRED] =
     Some (False, [base_copy BINARY_PRED])"
proof -
  have nt: "node_type ex_in_mixed \<noteq> COMPOUND_PRED"
    by (simp add: ex_defs)
  obtain out where
    ev: "build_disjuncts_list False ex_this ex_in_mixed [base_copy BINARY_PRED] =
      Some (False, out)"
    by (simp add: eval_defs)
  from non_compound_failure_appends_nothing [OF nt ev] have "out = [base_copy BINARY_PRED]" .
  with nt ev show ?thesis by simp
qed

subsection \<open>The membership branch\<close>

text \<open>
  Claim C3, as the code has it. For an \<open>IN_PRED\<close> node whose first child is, under its
  casts, a slot reference with a resolved slot descriptor, the value children (index 1
  and up) are checked against the type of the first child expression itself, which
  under a cast is the type cast to and not the type of the slot: if that type is in the
  string family every value child must have a string-family type, otherwise every value
  child must have the same type tag. The call succeeds exactly when all of them pass: it
  then builds one Membership predicate with the literals in order and the vector grows
  by one element; one mismatch makes the whole call fail and append nothing.
\<close>

theorem in_pred_type_check:
  assumes "node_type e = IN_PRED" and "get_child e 0 = Some c0"
    and "type_without_cast c0 = SLOT_REF" and "get_slot_desc this c0 = Some (Some sd)"
  shows "in_pred_branch nin this e =
     Some (if list_all (\<lambda>v. if is_string_type (expr_type c0) then is_string_type (expr_type v)
                        else type (expr_type v) = type (expr_type c0)) (tl (children e))
      then Some \<lparr>pred_node_type = IN_PRED, in_is_not_in = nin,
                 in_col = \<lparr>name = col_name sd, col_type = slot_type sd\<rparr>,
                 in_values = map (make_literal this) (tl (children e))\<rparr>
      else None) \<and>
   build_disjuncts_list nin this e ds =
     (if list_all (\<lambda>v. if is_string_type (expr_type c0) then is_string_type (expr_type v)
                        else type (expr_type v) = type (expr_type c0)) (tl (children e))
      then Some (True, ds @ [\<lparr>pred_node_type = IN_PRED\<rparr>])
      else Some (False, ds))"
  using assms
  by (simp add: build_non_compound is_match_func_def in_pred_branch_def in_pred_values_all
      emplace_and_return_simps)

text \<open>
  \<open>s IN ('x', 'y')\<close> with \<open>CHAR\<close> values on the \<open>VARCHAR\<close> column succeeds;
  \<open>a IN ('x', 1)\<close> on the integer column fails.
\<close>

theorem in_pred_type_check_witness:
  "node_type ex_in_strings = IN_PRED \<and> get_child ex_in_strings 0 = Some ref_s \<and>
   type_without_cast ref_s = SLOT_REF \<and> get_slot_desc ex_this ref_s = Some (Some slot_s) \<and>
   in_pred_branch False ex_this ex_in_strings = Some (Some
     \<lparr>pred_node_type = IN_PRED, in_is_not_in = False, in_col = col_s,
      in_values = [string_lit ''x'', string_lit ''y'']\<rparr>) \<and>
   build_disjuncts_list False ex_this ex_in_strings [] = Some (True, [base_copy IN_PRED]) \<and>
   node_type ex_in_mixed = IN_PRED \<and> get_child ex_in_mixed 0 = Some ref_a \<and>
   type_without_cast ref_a = SLOT_REF \<and> get_slot_desc ex_this ref_a = Some (Some slot_a) \<and>
   in_pred_branch False ex_this ex_in_mixed = Some None \<and>
   build_disjuncts_list False ex_this ex_in_mixed [] = Some (False, [])"
  using in_pred_type_check [of ex_in_strings ref_s ex_this slot_s False "[]"]
    in_pred_type_check [of ex_in_mixed ref_a ex_this slot_a False "[]"]
  by (simp add: ex_defs get_child_def get_slot_desc_def is_string_type_def make_literal_def)

text \<open>
  Claim C3 as the spec states it fails on \<open>CAST(a AS BIGINT) IN (1, 2)\<close> with \<open>BIGINT\<close>
  values: the slot \<open>a\<close> is declared \<open>INT\<close>, which is not in the string family, the first
  value has another type tag than the slot, and the call succeeds.
\<close>

theorem in_pred_checked_against_cast_type:
  "node_type ex_in_cast = IN_PRED \<and>
   get_child ex_in_cast 0 = Some (mk_cast bigint_type ref_a) \<and>
   type_without_cast (mk_cast bigint_type ref_a) = SLOT_REF \<and>
   get_slot_desc ex_this (mk_cast bigint_type ref_a) = Some (Some slot_a) \<and>
   \<not> is_string_type (slot_type slot_a) \<and>
   get_child ex_in_cast 1 = Some (mk_int_literal bigint_type 1) \<and>
   type (expr_type (mk_int_literal bigint_type 1)) \<noteq> type (slot_type slot_a) \<and>
   in_pred_branch False ex_this ex_in_cast = Some (Some
     \<lparr>pred_node_type = IN_PRED, in_is_not_in = False, in_col = col_a,
      in_values = [int_lit 1, int_lit 2]\<rparr>) \<and>
   build_disjuncts_list False ex_this ex_in_cast [] = Some (True, [base_copy IN_PRED])"
  by (simp add: eval_defs)

text \<open>
  Claim C2 does not hold of the code. The source stores \<open>is_not_in\<close> in a local
  \<open>TExtInPredicate\<close> that is never read, and constructs the Membership predicate from the
  node type, the column name, the column type and the values only. For
  \<open>a NOT IN (1, 2, 3)\<close> and for \<open>a IN (1, 2, 3)\<close> the branch therefore builds the same
  predicate, with the same flag, whatever value \<open>nin\<close> the constructor leaves in it, and
  the two calls return the same vector.
\<close>

theorem not_in_marker_dropped:
  "is_not_in ex_not_in \<and> \<not> is_not_in ex_in \<and>
   in_pred_branch nin ex_this ex_not_in = Some (Some
     \<lparr>pred_node_type = IN_PRED, in_is_not_in = nin, in_col = col_a,
      in_values = [int_lit 1, int_lit 2, int_lit 3]\<rparr>) \<and>
   in_pred_branch nin ex_this ex_in = Some (Some
     \<lparr>pred_node_type = IN_PRED, in_is_not_in = nin, in_col = col_a,
      in_values = [int_lit 1, int_lit 2, int_lit 3]\<rparr>) \<and>
   build_disjuncts_list nin ex_this ex_not_in [] = Some (True, [base_copy IN_PRED]) \<and>
   build_disjuncts_list nin ex_this ex_in [] = Some (True, [base_copy IN_PRED])"
  by (simp add: eval_defs)

text \<open>The same for every membership node: the marker has no influence on the result.\<close>

lemma in_pred_marker_unused:
  "in_pred_branch nin this (Expr IN_PRED opc ty fnm sid b cv cs) =
     in_pred_branch nin this (Expr IN_PRED opc ty fnm sid b' cv cs) \<and>
   build_disjuncts_list nin this (Expr IN_PRED opc ty fnm sid b cv cs) ds =
     build_disjuncts_list nin this (Expr IN_PRED opc ty fnm sid b' cv cs) ds"
  by (simp add: build_non_compound is_match_func_def in_pred_branch_def get_child_def)

end
